theory Spec2Isabelle
  imports Complex_Main "HOL-Library.Sublist"
begin

section \<open>Data model of the Privacy Glasses plugin (src/main.ts)\<close>

text \<open>The enum \<open>Level\<close> (main.ts, lines 9-14).\<close>

datatype Level = HideAll | HidePrivate | RevealAll | RevealHeadlines

text \<open>
  Every exception the modelled code can raise is a JavaScript \<open>TypeError\<close>: the
  \<open>in\<close> operator applied to \<open>null\<close> or \<open>undefined\<close>, a property read on
  \<open>null\<close> or \<open>undefined\<close>, or a call of something that is not a function.
  A raising function returns \<open>Inl TypeError\<close>; the store at the moment of the raise is
  not tracked.
\<close>

datatype js_error = TypeError

text \<open>
  A property slot of a JavaScript object: missing, found on the prototype chain only, or
  an own property. \<open>Object.getOwnPropertyDescriptor\<close> and
  \<open>Object.getOwnPropertyNames\<close> see own properties only, the \<open>in\<close> operator
  sees both, and reading a missing property gives \<open>undefined\<close>.
\<close>

datatype 'a slot = Absent | Inherited 'a | Own 'a

fun has_own :: "'a slot \<Rightarrow> bool" where
  "has_own (Own v) = True"
| "has_own (Inherited v) = False"
| "has_own Absent = False"

fun js_in :: "'a slot \<Rightarrow> bool" where
  "js_in Absent = False"
| "js_in (Inherited v) = True"
| "js_in (Own v) = True"

text \<open>The host's file objects: a \<open>TFile\<close> has a parent folder (or \<open>null\<close>), and
  a folder has a path.\<close>

record TFolder =
  path :: string

record TFile =
  file_path :: string
  parent :: "TFolder option"

text \<open>
  The host's metadata cache entry of a file. \<open>tags\<close> is the optional list of tags of
  the note body, \<open>frontmatter\<close> the optional front-matter object; the \<open>tags\<close> key of
  the front-matter is optional too and, being YAML, holds either an array of strings or
  something that is not an array (a scalar string such as \<open>tags: a, b\<close>, or null).
\<close>

record TagCache =
  tag :: string

datatype fm_value = FmArray "string list" | FmNotArray

record FrontMatterCache =
  fm_tags :: "fm_value option"

record CachedMetadata =
  tags :: "TagCache list option"
  frontmatter :: "FrontMatterCache option"

text \<open>The interface \<open>PrivacyGlassesSettings\<close> (lines 352-360). JavaScript numbers
  are modelled as reals.\<close>

record PrivacyGlassesSettings =
  blurOnStartup :: Level
  blurLevel :: real
  blurOnIdleTimeoutSeconds :: real
  hoverToReveal :: bool
  revealUnderCaret :: bool
  privateDirs :: string
  privateNoteMarker :: string

text \<open>
  The value held by a view's \<open>setState\<close> slot: something that is not a function, a
  function of the host (numbered), or the closure \<open>wrapper.bind(view)\<close> that
  \<open>hookViewStateChanged\<close> builds, which captures the previous value of the slot and the
  view it was built for.
\<close>

datatype fn = NotFunction | HostFn nat | HookWrapper fn nat

text \<open>
  A view of the host, as far as the plugin reads it: the \<open>file\<close> slot (holding a file
  or \<open>null\<close>), the \<open>editor\<close> slot (only its truthiness is read), the container
  element (an element identifier) and the \<open>setState\<close> slot.
\<close>

record View =
  file_slot :: "TFile option slot"
  editor_slot :: "bool slot"
  containerEl :: nat
  setState_slot :: "fn slot"

text \<open>
  The plugin object together with the parts of the host it reads and writes: the
  metadata cache lookup \<open>app.metadataCache.getFileCache\<close> (a parameter: it is called with
  \<open>view.file\<close>, which may be \<open>null\<close>, returns an entry or \<open>null\<close>, and may raise),
  the workspace leaves in the order \<open>iterateAllLeaves\<close> visits them (as view
  identifiers into the store \<open>views\<close>), the class list of \<open>document.body\<close> and the
  class list of every element.
\<close>

record plugin =
  settings :: PrivacyGlassesSettings
  currentLevel :: Level
  revealed :: "nat list"
  lastEventTime :: "real option"
  getFileCache :: "TFile option \<Rightarrow> js_error + CachedMetadata option"
  leaves :: "nat list"
  views :: "nat \<Rightarrow> View"
  body :: "string list"
  classList :: "nat \<Rightarrow> string list"

section \<open>The reveal policy: \<open>shouldRevealLeaf\<close> (lines 209-252)\<close>

text \<open>\<open>isMarkdownFileInfoView\<close> (lines 481-484): the view has an own \<open>file\<close> property.\<close>

definition isMarkdownFileInfoView :: "View \<Rightarrow> bool" where
  "isMarkdownFileInfoView x = has_own (file_slot x)"

text \<open>Reading a slot: the value, or \<open>None\<close> for \<open>undefined\<close>.\<close>

fun js_get :: "'a slot \<Rightarrow> 'a option" where
  "js_get Absent = None"
| "js_get (Inherited v) = Some v"
| "js_get (Own v) = Some v"

text \<open>\<open>view.file\<close> as the code reads it: a file, or nothing (\<open>null\<close> or \<open>undefined\<close>).\<close>

definition view_file :: "View \<Rightarrow> TFile option" where
  "view_file view = (case js_get (file_slot view) of None \<Rightarrow> None | Some f \<Rightarrow> f)"

text \<open>\<open>view.editor\<close> is truthy.\<close>

definition editor_truthy :: "View \<Rightarrow> bool" where
  "editor_truthy view = (case js_get (editor_slot view) of None \<Rightarrow> False | Some b \<Rightarrow> b)"

text \<open>
  Lines 232-234: \<open>'tags' in getFileCache(file)\<close> raises on \<open>null\<close>; when the key is
  there, the tags with a truthy (non-empty) \<open>tag\<close> are pushed.
\<close>

definition bodyTags :: "CachedMetadata option \<Rightarrow> js_error + string list" where
  "bodyTags c =
     (case c of
        None \<Rightarrow> Inl TypeError
      | Some m \<Rightarrow>
          (case tags m of
             None \<Rightarrow> Inr []
           | Some ts \<Rightarrow> Inr (map tag (filter (\<lambda>x. tag x \<noteq> []) ts))))"

text \<open>
  Lines 236-238: the operand of \<open>in\<close> is \<open>cache?.frontmatter\<close>, which is
  \<open>undefined\<close> when the entry is \<open>null\<close> or has no front-matter, and \<open>in\<close> raises on
  \<open>undefined\<close>; when the \<open>tags\<close> key is there, \<open>.filter\<close> is called on its value,
  which raises unless the value is an array; the truthy (non-empty) strings are pushed.
\<close>

definition frontmatterTags :: "CachedMetadata option \<Rightarrow> js_error + string list" where
  "frontmatterTags c =
     (case (case c of None \<Rightarrow> None | Some m \<Rightarrow> frontmatter m) of
        None \<Rightarrow> Inl TypeError
      | Some fm \<Rightarrow>
          (case fm_tags fm of
             None \<Rightarrow> Inr []
           | Some FmNotArray \<Rightarrow> Inl TypeError
           | Some (FmArray xs) \<Rightarrow> Inr (filter (\<lambda>x. x \<noteq> []) xs)))"

text \<open>Lines 230-238: the array \<open>tags\<close> after both pushes, body tags first.\<close>

definition gatherTags :: "plugin \<Rightarrow> View \<Rightarrow> js_error + string list" where
  "gatherTags p view =
     (case getFileCache p (view_file view) of
        Inl e \<Rightarrow> Inl e
      | Inr c \<Rightarrow>
          (case bodyTags c of
             Inl e \<Rightarrow> Inl e
           | Inr bs \<Rightarrow>
               (case frontmatterTags c of
                  Inl e \<Rightarrow> Inl e
                | Inr fs \<Rightarrow> Inr (bs @ fs))))"

text \<open>
  \<open>String.prototype.contains\<close> is an extension the host installs (its code is not in
  src/); it is \<open>includes\<close>: the argument occurs in the receiver as a contiguous
  substring.
\<close>

fun contains :: "string \<Rightarrow> string \<Rightarrow> bool" where
  "contains [] t = (t = [])"
| "contains (c # cs) t = (prefix t (c # cs) \<or> contains cs t)"

text \<open>
  The argument of \<open>contains\<close> on line 246, \<open>view.file?.parent?.path\<close>: the path of the
  parent folder, or \<open>undefined\<close>, which the string search converts to the text
  \<open>undefined\<close>.
\<close>

definition parentPath :: "TFile \<Rightarrow> string" where
  "parentPath f = (case parent f of None \<Rightarrow> ''undefined'' | Some d \<Rightarrow> path d)"

text \<open>Lines 244-251: the directory policy.\<close>

definition directoryPolicy :: "plugin \<Rightarrow> View \<Rightarrow> bool" where
  "directoryPolicy p view =
     (case view_file view of
        None \<Rightarrow> False
      | Some f \<Rightarrow> \<not> contains (privateDirs (settings p)) (parentPath f))"

definition shouldRevealLeaf :: "plugin \<Rightarrow> View \<Rightarrow> js_error + bool" where
  "shouldRevealLeaf p view =
     (if currentLevel p = RevealAll then Inr True
      else if currentLevel p = HideAll \<or> currentLevel p = RevealHeadlines then Inr False
      else if \<not> isMarkdownFileInfoView view then Inr True
      else if \<not> js_in (editor_slot view) \<or> \<not> js_in (file_slot view) then Inr False
      else if editor_truthy view \<and> privateNoteMarker (settings p) \<noteq> [] then
        (case gatherTags p view of
           Inl e \<Rightarrow> Inl e
         | Inr ts \<Rightarrow>
             if ts \<noteq> [] then Inr (privateNoteMarker (settings p) \<notin> set ts)
             else Inr (directoryPolicy p view))
      else Inr (directoryPolicy p view))"

section \<open>The style applier (lines 254-314)\<close>

text \<open>The enum \<open>CssClass\<close> (lines 16-27). \<open>Reveal\<close> and \<open>PrivacyGlassesReveal\<close>
  are the same class name.\<close>

definition CssBlurAll :: string where
  "CssBlurAll = ''privacy-glasses-blur-all''"

definition CssRevealOnHover :: string where
  "CssRevealOnHover = ''privacy-glasses-reveal-on-hover''"

definition CssRevealAll :: string where
  "CssRevealAll = ''privacy-glasses-reveal-all''"

definition CssRevealUnderCaret :: string where
  "CssRevealUnderCaret = ''privacy-glasses-reveal-under-caret''"

definition CssRevealHeadlines :: string where
  "CssRevealHeadlines = ''privacy-glasses-reveal-headlines''"

definition CssReveal :: string where
  "CssReveal = ''privacy-glasses-reveal''"

definition CssIsMdView :: string where
  "CssIsMdView = ''is-md-view''"

definition CssIsNonMdView :: string where
  "CssIsNonMdView = ''is-non-md-view''"

definition CssIsMdViewHeadlinesOnly :: string where
  "CssIsMdViewHeadlinesOnly = ''is-md-view-headlines-only''"

definition CssPrivacyGlassesReveal :: string where
  "CssPrivacyGlassesReveal = ''privacy-glasses-reveal''"

text \<open>
  The class list of an element is the DOM's ordered token set: \<open>classList.add\<close>
  appends a token that is not there yet, \<open>classList.remove\<close> deletes the tokens given.
  The host's \<open>addClass\<close> and \<open>removeClass\<close> on an element are these two.
\<close>

definition classList_add :: "string \<Rightarrow> string list \<Rightarrow> string list" where
  "classList_add c cs = (if c \<in> set cs then cs else cs @ [c])"

definition classList_remove :: "string list \<Rightarrow> string list \<Rightarrow> string list" where
  "classList_remove rs cs = filter (\<lambda>c. c \<notin> set rs) cs"

definition addClass :: "nat \<Rightarrow> string \<Rightarrow> plugin \<Rightarrow> plugin" where
  "addClass el c p = p\<lparr>classList := (classList p)(el := classList_add c (classList p el))\<rparr>"

definition removeClass :: "nat \<Rightarrow> string list \<Rightarrow> plugin \<Rightarrow> plugin" where
  "removeClass el rs p =
     p\<lparr>classList := (classList p)(el := classList_remove rs (classList p el))\<rparr>"

text \<open>The class that lines 257-265 add to the container.\<close>

definition viewKindClass :: "plugin \<Rightarrow> View \<Rightarrow> string" where
  "viewKindClass p view =
     (let isMd = isMarkdownFileInfoView view \<and> editor_truthy view in
      if isMd \<and> currentLevel p = RevealHeadlines then CssIsMdViewHeadlinesOnly
      else if isMd then CssIsMdView
      else CssIsNonMdView)"

text \<open>\<open>updateLeafViewStyle\<close> (lines 254-274). A revealed container is pushed onto
  \<open>revealed\<close>.\<close>

definition updateLeafViewStyle :: "View \<Rightarrow> plugin \<Rightarrow> js_error + plugin" where
  "updateLeafViewStyle view p =
     (let el = containerEl view;
          p1 = removeClass el [CssIsMdView, CssIsNonMdView, CssIsMdViewHeadlinesOnly] p;
          p2 = addClass el (viewKindClass p1 view) p1
      in case shouldRevealLeaf p2 view of
           Inl e \<Rightarrow> Inl e
         | Inr shouldReveal \<Rightarrow>
             if shouldReveal
             then Inr ((addClass el CssPrivacyGlassesReveal p2)\<lparr>revealed := revealed p2 @ [el]\<rparr>)
             else Inr (removeClass el [CssPrivacyGlassesReveal] p2))"

text \<open>
  The host's \<open>workspace.iterateAllLeaves\<close>: the callback runs on every leaf in order;
  an exception of the callback ends the iteration.
\<close>

fun iterateAllLeaves ::
  "(nat \<Rightarrow> plugin \<Rightarrow> js_error + plugin) \<Rightarrow> nat list \<Rightarrow> plugin \<Rightarrow> js_error + plugin" where
  "iterateAllLeaves f [] p = Inr p"
| "iterateAllLeaves f (l # ls) p =
     (case f l p of Inl e \<Rightarrow> Inl e | Inr q \<Rightarrow> iterateAllLeaves f ls q)"

text \<open>\<open>updateLeavesStyle\<close> (lines 281-285).\<close>

definition updateLeavesStyle :: "plugin \<Rightarrow> js_error + plugin" where
  "updateLeavesStyle p =
     iterateAllLeaves (\<lambda>leaf q. updateLeafViewStyle (views q leaf) q) (leaves p) p"

text \<open>\<open>removeAllClasses\<close> (lines 298-300).\<close>

definition removeAllClasses :: "plugin \<Rightarrow> plugin" where
  "removeAllClasses p =
     p\<lparr>body := classList_remove
        [CssBlurAll, CssRevealOnHover, CssRevealAll, CssRevealUnderCaret, CssRevealHeadlines]
        (body p)\<rparr>"

text \<open>\<open>setClassToDocumentBody\<close> (lines 302-314): the switch has no case for
  \<open>HidePrivate\<close>.\<close>

fun setClassToDocumentBody :: "Level \<Rightarrow> plugin \<Rightarrow> plugin" where
  "setClassToDocumentBody HideAll p = p\<lparr>body := classList_add CssBlurAll (body p)\<rparr>"
| "setClassToDocumentBody RevealAll p = p\<lparr>body := classList_add CssRevealAll (body p)\<rparr>"
| "setClassToDocumentBody RevealHeadlines p =
     p\<lparr>body := classList_add CssRevealHeadlines (body p)\<rparr>"
| "setClassToDocumentBody HidePrivate p = p"

text \<open>\<open>updateGlobalRevealStyle\<close> (lines 287-296).\<close>

definition updateGlobalRevealStyle :: "plugin \<Rightarrow> plugin" where
  "updateGlobalRevealStyle p =
     (let p1 = removeAllClasses p;
          p2 = setClassToDocumentBody (currentLevel p1) p1;
          p3 = (if hoverToReveal (settings p2)
                then p2\<lparr>body := classList_add CssRevealOnHover (body p2)\<rparr> else p2)
      in if revealUnderCaret (settings p3)
         then p3\<lparr>body := classList_add CssRevealUnderCaret (body p3)\<rparr> else p3)"

text \<open>\<open>updateLeavesAndGlobalReveals\<close> (lines 276-279).\<close>

definition updateLeavesAndGlobalReveals :: "plugin \<Rightarrow> js_error + plugin" where
  "updateLeavesAndGlobalReveals p =
     (case updateLeavesStyle p of
        Inl e \<Rightarrow> Inl e
      | Inr q \<Rightarrow> Inr (updateGlobalRevealStyle q))"

section \<open>The idle monitor: \<open>checkIdleTimeout\<close> (lines 176-192)\<close>

text \<open>
  JavaScript numbers are IEEE 754 doubles. A finite double is modelled as the real number
  it denotes. The result of an arithmetic operation on doubles is the exact result
  rounded to a double; the rounding is the parameter \<open>rnd\<close>. Comparisons of finite
  doubles are exact. Infinities and NaN are not modelled: the time stamps and the setting
  are finite, and their difference and its quotient by 1000 do not overflow.
\<close>

definition js_minus :: "(real \<Rightarrow> real) \<Rightarrow> real \<Rightarrow> real \<Rightarrow> real" where
  "js_minus rnd a b = rnd (a - b)"

definition js_divide :: "(real \<Rightarrow> real) \<Rightarrow> real \<Rightarrow> real \<Rightarrow> real" where
  "js_divide rnd a b = rnd (a / b)"

text \<open>
  The value of \<open>performance.now()\<close> is the parameter \<open>now\<close>, in milliseconds.
  \<open>!this.lastEventTime\<close> holds when the field is \<open>undefined\<close> (\<open>None\<close>) or zero.
\<close>

definition checkIdleTimeout :: "(real \<Rightarrow> real) \<Rightarrow> real \<Rightarrow> plugin \<Rightarrow> js_error + plugin" where
  "checkIdleTimeout rnd now p =
     (if blurOnIdleTimeoutSeconds (settings p) < 0 then Inr p
      else if currentLevel p = HideAll then Inr p
      else
        (case lastEventTime p of
           None \<Rightarrow> Inr p
         | Some t \<Rightarrow>
             if t = 0 then Inr p
             else if js_divide rnd (js_minus rnd now t) 1000
                       \<ge> blurOnIdleTimeoutSeconds (settings p)
             then updateLeavesAndGlobalReveals (p\<lparr>currentLevel := HideAll\<rparr>)
             else Inr p))"


section \<open>The view lifecycle hook (lines 137-164 and 486-515)\<close>

text \<open>\<open>onBeforeViewStateChange\<close> (lines 139-143): the leaf is not used.\<close>

definition onBeforeViewStateChange :: "nat \<Rightarrow> plugin \<Rightarrow> plugin" where
  "onBeforeViewStateChange l p = fold (\<lambda>r q. removeClass r [CssReveal] q) (revealed p) p"

text \<open>\<open>isHooked\<close> (lines 486-490): \<open>setState\<close> is among the own property names and
  holds a function.\<close>

definition isHooked :: "View \<Rightarrow> bool" where
  "isHooked view =
     (case setState_slot view of
        Own f \<Rightarrow> f \<noteq> NotFunction
      | Inherited f \<Rightarrow> False
      | Absent \<Rightarrow> False)"

text \<open>
  \<open>hookViewStateChanged\<close> (lines 492-515), as far as it changes the view: it reads the
  current value of \<open>setState\<close> (\<open>undefined\<close> is not a function) and stores the bound
  wrapper as an own property. The second argument is the identifier of the view, which
  the closure captures.
\<close>

definition hookViewStateChanged :: "View \<Rightarrow> nat \<Rightarrow> View" where
  "hookViewStateChanged view vid =
     (let setState = (case js_get (setState_slot view) of None \<Rightarrow> NotFunction | Some f \<Rightarrow> f)
      in view\<lparr>setState_slot := Own (HookWrapper setState vid)\<rparr>)"

text \<open>\<open>ensureLeavesHooked\<close> (lines 153-164), on the leaves given.\<close>

definition ensureLeafHooked :: "nat \<Rightarrow> plugin \<Rightarrow> plugin" where
  "ensureLeafHooked e p =
     (if isHooked (views p e) then p
      else p\<lparr>views := (views p)(e := hookViewStateChanged (views p e) e)\<rparr>)"

definition ensureLeavesHooked :: "plugin \<Rightarrow> plugin" where
  "ensureLeavesHooked p = fold ensureLeafHooked (leaves p) p"

text \<open>How many times a function value has been wrapped by \<open>hookViewStateChanged\<close>.\<close>

fun timesHooked :: "fn \<Rightarrow> nat" where
  "timesHooked NotFunction = 0"
| "timesHooked (HostFn k) = 0"
| "timesHooked (HookWrapper f v) = Suc (timesHooked f)"

definition viewTimesHooked :: "View \<Rightarrow> nat" where
  "viewTimesHooked view =
     (case js_get (setState_slot view) of None \<Rightarrow> 0 | Some f \<Rightarrow> timesHooked f)"

text \<open>A run of attachment passes, each over the leaves open at that moment.\<close>

definition attachmentPasses :: "nat list list \<Rightarrow> plugin \<Rightarrow> plugin" where
  "attachmentPasses lss p = fold (\<lambda>ls q. ensureLeavesHooked (q\<lparr>leaves := ls\<rparr>)) lss p"

subsection \<open>The wrapper installed by \<open>hookViewStateChanged\<close> (lines 500-512)\<close>

text \<open>
  What the original \<open>setState\<close> returns: \<open>undefined\<close>, \<open>null\<close>, a value with a
  \<open>then\<close> method (a promise, numbered), or any other value, for which
  \<open>typeof r.then\<close> is not \<open>"function"\<close>.
\<close>

datatype 'v js_result = Undefined | Null | Thenable nat | Plain 'v

text \<open>
  The state the wrapper runs in: the world the callbacks and the original act on, and
  the callbacks registered with \<open>then\<close>, each with the promise it waits for.
\<close>

record 'w runtime =
  world :: 'w
  thens :: "(nat \<times> ('w \<Rightarrow> 'w)) list"

text \<open>
  The function \<open>wrapper\<close>. \<open>setState\<close> is the value read from the view on line 498
  (\<open>None\<close> when it is not a function: applying it raises); \<open>this\<close> and
  \<open>arguments\<close> are forwarded to it. Reading \<open>r.then\<close> raises when \<open>r\<close> is
  \<open>undefined\<close> or \<open>null\<close>.
\<close>

definition wrapper ::
  "(nat \<Rightarrow> 'w \<Rightarrow> 'w) \<Rightarrow>
   (nat \<Rightarrow> 'a \<Rightarrow> 'w runtime \<Rightarrow> js_error + ('v js_result \<times> 'w runtime)) option \<Rightarrow>
   (nat \<Rightarrow> 'w \<Rightarrow> 'w) \<Rightarrow> nat \<Rightarrow> nat \<Rightarrow> 'a \<Rightarrow> 'w runtime \<Rightarrow>
   js_error + ('v js_result \<times> 'w runtime)" where
  "wrapper onBeforeStateChange setState onAfterStateChange view this arguments rt =
     (let rt1 = rt\<lparr>world := onBeforeStateChange view (world rt)\<rparr> in
      case setState of
        None \<Rightarrow> Inl TypeError
      | Some original \<Rightarrow>
          (case original this arguments rt1 of
             Inl e \<Rightarrow> Inl e
           | Inr (r, rt2) \<Rightarrow>
               (case r of
                  Undefined \<Rightarrow> Inl TypeError
                | Null \<Rightarrow> Inl TypeError
                | Thenable k \<Rightarrow>
                    Inr (r, rt2\<lparr>thens := thens rt2 @ [(k, onAfterStateChange view)]\<rparr>)
                | Plain v \<Rightarrow>
                    Inr (r, rt2\<lparr>world := onAfterStateChange view (world rt2)\<rparr>))))"

text \<open>Line 513, \<open>wrapper.bind(view)\<close>: whatever receiver the caller passes, \<open>this\<close> is
  the view.\<close>

definition boundWrapper ::
  "(nat \<Rightarrow> 'w \<Rightarrow> 'w) \<Rightarrow>
   (nat \<Rightarrow> 'a \<Rightarrow> 'w runtime \<Rightarrow> js_error + ('v js_result \<times> 'w runtime)) option \<Rightarrow>
   (nat \<Rightarrow> 'w \<Rightarrow> 'w) \<Rightarrow> nat \<Rightarrow> nat \<Rightarrow> 'a \<Rightarrow> 'w runtime \<Rightarrow>
   js_error + ('v js_result \<times> 'w runtime)" where
  "boundWrapper onBeforeStateChange setState onAfterStateChange view receiver arguments rt =
     wrapper onBeforeStateChange setState onAfterStateChange view view arguments rt"

text \<open>
  The runtime's part: when promise \<open>k\<close> is fulfilled, the callbacks registered on it run
  in the order of their registration and leave the list.
\<close>

definition fulfil :: "nat \<Rightarrow> 'w runtime \<Rightarrow> 'w runtime" where
  "fulfil k rt =
     rt\<lparr>world := fold (\<lambda>(j, cb) w. if j = k then cb w else w) (thens rt) (world rt),
        thens := filter (\<lambda>(j, cb). j \<noteq> k) (thens rt)\<rparr>"

section \<open>Concrete inputs\<close>

text \<open>The scenario of the specification: private folders \<open>finance\<close> and \<open>therapy\<close>,
  marker \<open>#private\<close>, idle threshold five seconds.\<close>

definition scenarioSettings :: PrivacyGlassesSettings where
  "scenarioSettings =
     \<lparr>blurOnStartup = HidePrivate, blurLevel = 3 / 10, blurOnIdleTimeoutSeconds = 5,
      hoverToReveal = True, revealUnderCaret = False,
      privateDirs = ''finance,therapy'', privateNoteMarker = ''#private''\<rparr>"

text \<open>The same with the single private directory entry \<open>fin\<close>.\<close>

definition finSettings :: PrivacyGlassesSettings where
  "finSettings = scenarioSettings\<lparr>privateDirs := ''fin''\<rparr>"

text \<open>A note in folder \<open>finance\<close> and a note in folder \<open>fin\<close>.\<close>

definition financeNote :: TFile where
  "financeNote = \<lparr>file_path = ''finance/budget.md'', parent = Some \<lparr>path = ''finance''\<rparr>\<rparr>"

definition finNote :: TFile where
  "finNote = \<lparr>file_path = ''fin/a.md'', parent = Some \<lparr>path = ''fin''\<rparr>\<rparr>"

text \<open>Cache entries: a note with an empty front-matter block and no tag; a note with
  neither front-matter nor tags; a note whose body carries \<open>#work\<close>, with an empty
  front-matter block and without one.\<close>

definition untaggedWithFrontmatter :: CachedMetadata where
  "untaggedWithFrontmatter = \<lparr>tags = None, frontmatter = Some \<lparr>fm_tags = None\<rparr>\<rparr>"

definition plainNote :: CachedMetadata where
  "plainNote = \<lparr>tags = None, frontmatter = None\<rparr>"

definition workWithFrontmatter :: CachedMetadata where
  "workWithFrontmatter =
     \<lparr>tags = Some [\<lparr>tag = ''#work''\<rparr>], frontmatter = Some \<lparr>fm_tags = None\<rparr>\<rparr>"

definition workBodyOnly :: CachedMetadata where
  "workBodyOnly = \<lparr>tags = Some [\<lparr>tag = ''#work''\<rparr>], frontmatter = None\<rparr>"

text \<open>A markdown view showing a file (own \<open>file\<close> and \<open>editor\<close>, inherited
  \<open>setState\<close>), an image view of a file (own \<open>file\<close>, no \<open>editor\<close>) and a view
  that shows no file at all, in containers 1, 2 and 3.\<close>

definition markdownView :: "TFile \<Rightarrow> View" where
  "markdownView f =
     \<lparr>file_slot = Own (Some f), editor_slot = Own True, containerEl = 1,
      setState_slot = Inherited (HostFn 0)\<rparr>"

definition imageView :: "TFile \<Rightarrow> View" where
  "imageView f =
     \<lparr>file_slot = Own (Some f), editor_slot = Absent, containerEl = 2,
      setState_slot = Inherited (HostFn 0)\<rparr>"

definition graphView :: View where
  "graphView =
     \<lparr>file_slot = Absent, editor_slot = Absent, containerEl = 3,
      setState_slot = Inherited (HostFn 0)\<rparr>"

text \<open>A file view that shows no file: an own \<open>file\<close> property holding \<open>null\<close>
  and no \<open>editor\<close>, in container 4.\<close>

definition emptyFileView :: View where
  "emptyFileView =
     \<lparr>file_slot = Own None, editor_slot = Absent, containerEl = 4,
      setState_slot = Inherited (HostFn 0)\<rparr>"

text \<open>A note in the subfolder \<open>finance/2024\<close>.\<close>

definition finance2024Note :: TFile where
  "finance2024Note =
     \<lparr>file_path = ''finance/2024/q1.md'', parent = Some \<lparr>path = ''finance/2024''\<rparr>\<rparr>"



text \<open>A plugin at level \<open>HidePrivate\<close> with the given settings, one cache entry for
  every file and one open view; the last input was at 1000 ms.\<close>

definition pluginWith :: "PrivacyGlassesSettings \<Rightarrow> CachedMetadata option \<Rightarrow> View \<Rightarrow> plugin" where
  "pluginWith s c v =
     \<lparr>settings = s, currentLevel = HidePrivate, revealed = [], lastEventTime = Some 1000,
      getFileCache = (\<lambda>f. Inr c), leaves = [0], views = (\<lambda>l. v),
      body = [], classList = (\<lambda>el. [])\<rparr>"

text \<open>The plugin after one style update of a workspace whose only view is the graph
  view: its container 3 is revealed and tracked.\<close>

definition revealedPlugin :: plugin where
  "revealedPlugin =
     (pluginWith scenarioSettings None graphView)
       \<lparr>revealed := [3],
        classList := (\<lambda>el. if el = 3 then [CssIsNonMdView, CssPrivacyGlassesReveal] else [])\<rparr>"

text \<open>A workspace in which \<open>iterateAllLeaves\<close> meets view 0 twice and view 1 once.\<close>

definition hookedPlugin :: plugin where
  "hookedPlugin = (pluginWith scenarioSettings None graphView)\<lparr>leaves := [0, 1, 0]\<rparr>"

text \<open>The relation between a view before and after any number of attachment passes: it
  is as it was, or it was not hooked and has been hooked exactly once.\<close>

definition hookedOnceOrNot :: "View \<Rightarrow> View \<Rightarrow> nat \<Rightarrow> bool" where
  "hookedOnceOrNot v0 v k = (v = v0 \<or> (\<not> isHooked v0 \<and> v = hookViewStateChanged v0 k))"

text \<open>Callbacks and an original transition that write their names into a log, which is
  the world; the original returns the result given. The empty runtime.\<close>

definition logBefore :: "nat \<Rightarrow> string list \<Rightarrow> string list" where
  "logBefore view w = w @ [''before'']"

definition logAfter :: "nat \<Rightarrow> string list \<Rightarrow> string list" where
  "logAfter view w = w @ [''after'']"

definition originalReturning ::
  "nat js_result \<Rightarrow> nat \<Rightarrow> nat list \<Rightarrow> string list runtime \<Rightarrow>
   js_error + (nat js_result \<times> string list runtime)" where
  "originalReturning r this arguments rt = Inr (r, rt\<lparr>world := world rt @ [''original'']\<rparr>)"

definition emptyRuntime :: "string list runtime" where
  "emptyRuntime = \<lparr>world = [], thens = []\<rparr>"

text \<open>
  The classes the per-view style update manages, the classes it leaves on the container
  of a view, the inputs of the reveal decision that a style update does not touch, and the
  class set of an element after the leaves given were updated in order.
\<close>

definition managedClasses :: "string set" where
  "managedClasses =
     {CssIsMdView, CssIsNonMdView, CssIsMdViewHeadlinesOnly, CssPrivacyGlassesReveal}"

definition targetClasses :: "plugin \<Rightarrow> View \<Rightarrow> string set" where
  "targetClasses p v =
     {viewKindClass p v} \<union>
     (if shouldRevealLeaf p v = Inr True then {CssPrivacyGlassesReveal} else {})"

definition sameInputs :: "plugin \<Rightarrow> plugin \<Rightarrow> bool" where
  "sameInputs p q =
     (settings q = settings p \<and> currentLevel q = currentLevel p \<and>
      getFileCache q = getFileCache p \<and> leaves q = leaves p \<and> views q = views p)"

fun finalClasses :: "plugin \<Rightarrow> nat list \<Rightarrow> nat \<Rightarrow> string set \<Rightarrow> string set" where
  "finalClasses p [] e S = S"
| "finalClasses p (l # ls) e S =
     finalClasses p ls e
       (if containerEl (views p l) = e
        then (S - managedClasses) \<union> targetClasses p (views p l) else S)"

text \<open>The level class of a level, as a set.\<close>

definition levelClasses :: "Level \<Rightarrow> string set" where
  "levelClasses l =
     (case l of HideAll \<Rightarrow> {CssBlurAll} | HidePrivate \<Rightarrow> {}
      | RevealAll \<Rightarrow> {CssRevealAll} | RevealHeadlines \<Rightarrow> {CssRevealHeadlines})"

text \<open>The plugin after one full run of the style applier on the workspace with the
  graph view only.\<close>

definition styledOnce :: plugin where
  "styledOnce = revealedPlugin\<lparr>body := [CssRevealOnHover]\<rparr>"

section \<open>Properties of the reveal policy\<close>

lemmas example_defs =
  scenarioSettings_def finSettings_def financeNote_def finNote_def
  untaggedWithFrontmatter_def plainNote_def workWithFrontmatter_def workBodyOnly_def
  markdownView_def imageView_def graphView_def pluginWith_def emptyFileView_def
  finance2024Note_def

lemmas policy_defs =
  shouldRevealLeaf_def isMarkdownFileInfoView_def editor_truthy_def view_file_def
  gatherTags_def bodyTags_def frontmatterTags_def directoryPolicy_def parentPath_def

text \<open>The host's \<open>contains\<close> is the contiguous-sublist relation of the library, with
  the receiver as the longer list.\<close>

lemma contains_sublist: "contains s t = sublist t s"
  by (induction s) (auto simp: sublist_Cons_right)

lemma editor_truthy_in: "editor_truthy view \<Longrightarrow> js_in (editor_slot view)"
  by (cases "editor_slot view") (simp_all add: editor_truthy_def)

lemma own_file_in: "isMarkdownFileInfoView view \<Longrightarrow> js_in (file_slot view)"
  by (cases "file_slot view") (simp_all add: isMarkdownFileInfoView_def)

text \<open>The branch of lines 225-242 is entered: the result is decided by the gathered
  tags, or is the error of gathering them.\<close>

lemma shouldRevealLeaf_tag_branch:
  assumes "currentLevel p = HidePrivate" and "isMarkdownFileInfoView view"
    and "editor_truthy view" and "privateNoteMarker (settings p) \<noteq> []"
  shows "shouldRevealLeaf p view =
     (case gatherTags p view of
        Inl e \<Rightarrow> Inl e
      | Inr ts \<Rightarrow>
          if ts \<noteq> [] then Inr (privateNoteMarker (settings p) \<notin> set ts)
          else Inr (directoryPolicy p view))"
  using assms editor_truthy_in [of view] own_file_in [of view]
  by (simp add: shouldRevealLeaf_def)

text \<open>There is one error value.\<close>

lemma js_error_is_TypeError: "(e :: js_error) = TypeError"
  by (cases e) simp

text \<open>Gathering raises when the cache entry is \<open>null\<close> or has no front-matter.\<close>

lemma gatherTags_raises:
  assumes "getFileCache p (view_file view) = Inr c"
    and "Option.bind c frontmatter = None"
  shows "gatherTags p view = Inl TypeError"
proof (cases c)
  case None
  with assms(1) show ?thesis
    by (simp add: gatherTags_def bodyTags_def)
next
  case (Some m)
  with assms have "frontmatterTags c = Inl TypeError"
    by (simp add: frontmatterTags_def)
  with assms(1) show ?thesis
    by (cases "bodyTags c") (simp_all add: gatherTags_def js_error_is_TypeError)
qed

text \<open>When gathering succeeds with at least one tag, the marker decides and the
  directory policy is not consulted; this is the tag branch without the raise.\<close>

lemma tags_override_directory:
  assumes "currentLevel p = HidePrivate" and "isMarkdownFileInfoView view"
    and "editor_truthy view" and "privateNoteMarker (settings p) \<noteq> []"
    and "gatherTags p view = Inr ts" and "ts \<noteq> []"
  shows "shouldRevealLeaf p view = Inr (privateNoteMarker (settings p) \<notin> set ts)"
  using assms by (simp add: shouldRevealLeaf_tag_branch)

lemma tagged_work_with_frontmatter_revealed:
  "shouldRevealLeaf (pluginWith scenarioSettings (Some workWithFrontmatter)
      (markdownView financeNote)) (markdownView financeNote) = Inr True"
  by (simp add: policy_defs example_defs)

text \<open>Metadata shapes that do fall through to the directory policy: an entry with a
  front-matter object and no tag in either place.\<close>

lemma untagged_entry_falls_through:
  assumes "currentLevel p = HidePrivate" and "isMarkdownFileInfoView view"
    and "editor_truthy view" and "privateNoteMarker (settings p) \<noteq> []"
    and "getFileCache p (view_file view) = Inr (Some m)"
    and "tags m = None \<or> tags m = Some []"
    and "frontmatter m = Some fm"
    and "fm_tags fm = None \<or> fm_tags fm = Some (FmArray [])"
  shows "shouldRevealLeaf p view = Inr (directoryPolicy p view)"
proof -
  have "gatherTags p view = Inr []"
    using assms(5-8) by (auto simp: gatherTags_def bodyTags_def frontmatterTags_def)
  with assms(1-4) show ?thesis
    by (simp add: shouldRevealLeaf_tag_branch)
qed

text \<open>A front-matter \<open>tags\<close> value that is not an array makes the decision raise.\<close>

lemma scalar_frontmatter_tags_raise:
  assumes "currentLevel p = HidePrivate" and "isMarkdownFileInfoView view"
    and "editor_truthy view" and "privateNoteMarker (settings p) \<noteq> []"
    and "getFileCache p (view_file view) = Inr (Some m)"
    and "frontmatter m = Some fm" and "fm_tags fm = Some FmNotArray"
  shows "shouldRevealLeaf p view = Inl TypeError"
proof -
  have "frontmatterTags (Some m) = Inl TypeError"
    using assms(6,7) by (simp add: frontmatterTags_def)
  then have "gatherTags p view = Inl TypeError"
    using assms(5)
    by (cases "bodyTags (Some m)") (simp_all add: gatherTags_def js_error_is_TypeError)
  with assms(1-4) show ?thesis
    by (simp add: shouldRevealLeaf_tag_branch)
qed

text \<open>A view with an own \<open>file\<close> but no \<open>editor\<close> property (line 224) is hidden under
  \<open>HidePrivate\<close>, whatever its folder.\<close>

lemma file_view_without_editor_hidden:
  assumes "currentLevel p = HidePrivate" and "isMarkdownFileInfoView view"
    and "\<not> js_in (editor_slot view)"
  shows "shouldRevealLeaf p view = Inr False"
  using assms by (simp add: shouldRevealLeaf_def)

text \<open>
  Claim C1 (failing input). Under level \<open>HidePrivate\<close>, for a view with an own file
  that has a parent folder, with an \<open>editor\<close> property, and whose note yields no tag
  signal (the tag branch is not entered, or gathering the tags ends with an empty list),
  the code hides the view if and only if the path of the parent folder occurs as a
  contiguous substring of the raw private-directories string. So a folder is not hidden
  by an entry that is a proper prefix of its path.
\<close>

theorem directory_policy_substring_of_setting:
  assumes "currentLevel p = HidePrivate"
    and "file_slot view = Own (Some f)" and "js_in (editor_slot view)"
    and "parent f = Some d"
    and "\<not> editor_truthy view \<or> privateNoteMarker (settings p) = []
         \<or> gatherTags p view = Inr []"
  shows "shouldRevealLeaf p view = Inr (\<not> sublist (path d) (privateDirs (settings p)))"
  using assms
  by (auto simp add: shouldRevealLeaf_def isMarkdownFileInfoView_def directoryPolicy_def
      view_file_def parentPath_def contains_sublist)

text \<open>With the entry \<open>fin\<close> configured, an untagged note in folder \<open>finance\<close> is
  revealed; with \<open>finance,therapy\<close> configured, an untagged note in the subfolder
  \<open>finance/2024\<close> is revealed and one in folder \<open>fin\<close> is hidden.\<close>

theorem directory_policy_substring_of_setting_witness:
  "shouldRevealLeaf (pluginWith finSettings (Some untaggedWithFrontmatter)
      (markdownView financeNote)) (markdownView financeNote) = Inr True
   \<and> shouldRevealLeaf (pluginWith scenarioSettings (Some untaggedWithFrontmatter)
      (markdownView finance2024Note)) (markdownView finance2024Note) = Inr True
   \<and> shouldRevealLeaf (pluginWith scenarioSettings (Some untaggedWithFrontmatter)
      (markdownView finNote)) (markdownView finNote) = Inr False"
  using
    directory_policy_substring_of_setting
      [of "pluginWith finSettings (Some untaggedWithFrontmatter) (markdownView financeNote)"
          "markdownView financeNote" financeNote "\<lparr>path = ''finance''\<rparr>"]
    directory_policy_substring_of_setting
      [of "pluginWith scenarioSettings (Some untaggedWithFrontmatter)
             (markdownView finance2024Note)"
          "markdownView finance2024Note" finance2024Note "\<lparr>path = ''finance/2024''\<rparr>"]
    directory_policy_substring_of_setting
      [of "pluginWith scenarioSettings (Some untaggedWithFrontmatter) (markdownView finNote)"
          "markdownView finNote" finNote "\<lparr>path = ''fin''\<rparr>"]
  by (simp add: policy_defs example_defs)

text \<open>
  Claim C2 (failing input). Under level \<open>HidePrivate\<close>, for a document view with an
  editor and a non-empty marker, a note whose body carries at least one tag but which has
  no front-matter block makes the reveal decision raise a \<open>TypeError\<close>: the view is
  neither revealed nor hidden, whether or not the marker is among the tags.
\<close>

theorem body_tags_without_frontmatter_raise:
  assumes "currentLevel p = HidePrivate" and "isMarkdownFileInfoView view"
    and "editor_truthy view" and "privateNoteMarker (settings p) \<noteq> []"
    and "getFileCache p (view_file view) = Inr (Some m)"
    and "tags m = Some ts" and "\<exists>x \<in> set ts. tag x \<noteq> []"
    and "frontmatter m = None"
  shows "shouldRevealLeaf p view = Inl TypeError"
proof -
  have "gatherTags p view = Inl TypeError"
    using assms(5,8) by (intro gatherTags_raises [where c = "Some m"]) simp_all
  with assms(1-4) show ?thesis
    by (simp add: shouldRevealLeaf_tag_branch)
qed

text \<open>The note in folder \<open>finance\<close> tagged \<open>#work\<close> in its body, without
  front-matter.\<close>

theorem body_tags_without_frontmatter_raise_witness:
  "shouldRevealLeaf (pluginWith scenarioSettings (Some workBodyOnly)
      (markdownView financeNote)) (markdownView financeNote) = Inl TypeError"
  using body_tags_without_frontmatter_raise
    [of "pluginWith scenarioSettings (Some workBodyOnly) (markdownView financeNote)"
        "markdownView financeNote" workBodyOnly "[\<lparr>tag = ''#work''\<rparr>]"]
  by (simp add: policy_defs example_defs)

text \<open>
  Claim C3. When the current level is not \<open>HidePrivate\<close>, the decision is a function
  of the level alone: it is \<open>true\<close> under \<open>RevealAll\<close> and \<open>false\<close> under \<open>HideAll\<close>
  and \<open>RevealHeadlines\<close>, for every view, every setting and every metadata lookup, and
  it never raises.
\<close>

theorem level_alone_decides_outside_HidePrivate:
  "currentLevel p \<noteq> HidePrivate \<Longrightarrow>
   shouldRevealLeaf p view = Inr (currentLevel p = RevealAll)"
  by (cases "currentLevel p") (simp_all add: shouldRevealLeaf_def)

theorem level_alone_decides_outside_HidePrivate_witness:
  "shouldRevealLeaf
     ((pluginWith scenarioSettings (Some plainNote) (markdownView financeNote))
        \<lparr>currentLevel := RevealAll\<rparr>) (markdownView financeNote) = Inr True
   \<and> shouldRevealLeaf
     ((pluginWith scenarioSettings (Some plainNote) (markdownView financeNote))
        \<lparr>currentLevel := HideAll\<rparr>) (markdownView financeNote) = Inr False
   \<and> shouldRevealLeaf
     ((pluginWith scenarioSettings (Some plainNote) (markdownView financeNote))
        \<lparr>currentLevel := RevealHeadlines\<rparr>) graphView = Inr False"
  using
    level_alone_decides_outside_HidePrivate
      [of "(pluginWith scenarioSettings (Some plainNote) (markdownView financeNote))
             \<lparr>currentLevel := RevealAll\<rparr>" "markdownView financeNote"]
    level_alone_decides_outside_HidePrivate
      [of "(pluginWith scenarioSettings (Some plainNote) (markdownView financeNote))
             \<lparr>currentLevel := HideAll\<rparr>" "markdownView financeNote"]
    level_alone_decides_outside_HidePrivate
      [of "(pluginWith scenarioSettings (Some plainNote) (markdownView financeNote))
             \<lparr>currentLevel := RevealHeadlines\<rparr>" graphView]
  by (simp add: pluginWith_def)




text \<open>
  Claim C5 (failing input). Under level \<open>HidePrivate\<close>, for a document view with an
  editor and a non-empty marker, a file with no cached entry or with an entry that has no
  front-matter makes the reveal decision raise a \<open>TypeError\<close> instead of falling
  through to the directory policy.
\<close>

theorem missing_metadata_raises:
  assumes "currentLevel p = HidePrivate" and "isMarkdownFileInfoView view"
    and "editor_truthy view" and "privateNoteMarker (settings p) \<noteq> []"
    and "getFileCache p (view_file view) = Inr c"
    and "Option.bind c frontmatter = None"
  shows "shouldRevealLeaf p view = Inl TypeError"
  using assms by (simp add: shouldRevealLeaf_tag_branch gatherTags_raises)

text \<open>A plain note (no tags, no front-matter) in folder \<open>finance\<close>, and a note with
  no cached entry.\<close>

theorem missing_metadata_raises_witness:
  "shouldRevealLeaf (pluginWith scenarioSettings (Some plainNote)
      (markdownView financeNote)) (markdownView financeNote) = Inl TypeError
   \<and> shouldRevealLeaf (pluginWith scenarioSettings None
      (markdownView financeNote)) (markdownView financeNote) = Inl TypeError"
  using
    missing_metadata_raises
      [of "pluginWith scenarioSettings (Some plainNote) (markdownView financeNote)"
          "markdownView financeNote" "Some plainNote"]
    missing_metadata_raises
      [of "pluginWith scenarioSettings None (markdownView financeNote)"
          "markdownView financeNote" None]
  by (simp add: policy_defs example_defs)

section \<open>Properties of the before-hook\<close>

lemma revealedPlugin_from_update:
  "updateLeavesStyle (pluginWith scenarioSettings None graphView) = Inr revealedPlugin"
  by (simp add: updateLeavesStyle_def pluginWith_def updateLeafViewStyle_def Let_def
      removeClass_def addClass_def viewKindClass_def graphView_def shouldRevealLeaf_def
      isMarkdownFileInfoView_def classList_add_def classList_remove_def revealedPlugin_def
      CssIsNonMdView_def CssPrivacyGlassesReveal_def fun_eq_iff)

lemma classList_remove_idem:
  "classList_remove cs (classList_remove cs xs) = classList_remove cs xs"
  by (simp add: classList_remove_def)

lemma set_classList_remove: "set (classList_remove cs xs) = set xs - set cs"
  by (auto simp: classList_remove_def)

text \<open>Removing classes from a list of elements changes the class lists of exactly these
  elements, and nothing else of the plugin.\<close>

lemma fold_removeClass:
  "fold (\<lambda>r q. removeClass r cs q) rs p =
     p\<lparr>classList :=
         (\<lambda>e. if e \<in> set rs then classList_remove cs (classList p e) else classList p e)\<rparr>"
proof (induction rs arbitrary: p)
  case Nil
  then show ?case by simp
next
  case (Cons r rs)
  have "fold (\<lambda>r q. removeClass r cs q) (r # rs) p
        = fold (\<lambda>r q. removeClass r cs q) rs (removeClass r cs p)"
    by simp
  also have "\<dots> = (removeClass r cs p)\<lparr>classList :=
      (\<lambda>e. if e \<in> set rs then classList_remove cs (classList (removeClass r cs p) e)
           else classList (removeClass r cs p) e)\<rparr>"
    by (rule Cons.IH)
  also have "\<dots> = p\<lparr>classList :=
      (\<lambda>e. if e \<in> set (r # rs) then classList_remove cs (classList p e)
           else classList p e)\<rparr>"
    by (auto simp add: removeClass_def fun_eq_iff classList_remove_idem)
  finally show ?case .
qed

text \<open>
  Claim C7 (as amended). The before-hook strips the \<open>revealed\<close> class from every
  container tracked in the Revealed-set, leaves the class lists of all other elements as
  they are, and leaves the Revealed-set itself unchanged: the set is not cleared.
\<close>

theorem before_hook_strips_and_keeps_set:
  "revealed (onBeforeViewStateChange l p) = revealed p
   \<and> (\<forall>e \<in> set (revealed p).
         set (classList (onBeforeViewStateChange l p) e) = set (classList p e) - {CssReveal})
   \<and> (\<forall>e. e \<notin> set (revealed p) \<longrightarrow>
         classList (onBeforeViewStateChange l p) e = classList p e)"
  by (simp add: onBeforeViewStateChange_def fold_removeClass set_classList_remove)

theorem before_hook_strips_and_keeps_set_witness:
  "revealed (onBeforeViewStateChange 0 revealedPlugin) = [3]
   \<and> classList (onBeforeViewStateChange 0 revealedPlugin) 3 = [CssIsNonMdView]
   \<and> classList (onBeforeViewStateChange 0 revealedPlugin) 1 = []"
  using before_hook_strips_and_keeps_set [of 0 revealedPlugin]
  by (simp add: onBeforeViewStateChange_def removeClass_def revealedPlugin_def
      classList_remove_def CssReveal_def CssPrivacyGlassesReveal_def CssIsNonMdView_def)

text \<open>After the before-hook has run on a plugin that tracks container 3, the
  Revealed-set still holds container 3.\<close>

theorem before_hook_does_not_clear:
  "revealed (onBeforeViewStateChange 0 revealedPlugin) = [3]"
  by (simp add: onBeforeViewStateChange_def removeClass_def revealedPlugin_def)

section \<open>Properties of the hook attachment\<close>

lemma isHooked_hook: "isHooked (hookViewStateChanged v k)"
  by (simp add: isHooked_def hookViewStateChanged_def Let_def)

lemma viewTimesHooked_hook:
  "viewTimesHooked (hookViewStateChanged v k) = Suc (viewTimesHooked v)"
  by (cases "setState_slot v")
    (simp_all add: viewTimesHooked_def hookViewStateChanged_def Let_def)

text \<open>One visit of a leaf keeps the relation: a view that has been hooked carries the
  marker and is skipped.\<close>

lemma ensureLeafHooked_keeps:
  assumes "hookedOnceOrNot v0 (views q k) k"
  shows "hookedOnceOrNot v0 (views (ensureLeafHooked e q) k) k"
proof (cases "e = k \<and> \<not> isHooked (views q k)")
  case True
  with assms have "views q k = v0" "\<not> isHooked v0"
    by (auto simp: hookedOnceOrNot_def isHooked_hook)
  with True show ?thesis
    by (simp add: ensureLeafHooked_def hookedOnceOrNot_def)
next
  case False
  then have "views (ensureLeafHooked e q) k = views q k"
    by (auto simp: ensureLeafHooked_def)
  with assms show ?thesis by simp
qed

lemma fold_ensureLeafHooked_keeps:
  "hookedOnceOrNot v0 (views q k) k \<Longrightarrow>
   hookedOnceOrNot v0 (views (fold ensureLeafHooked ls q) k) k"
  by (induction ls arbitrary: q) (simp_all add: ensureLeafHooked_keeps)

lemma ensureLeavesHooked_keeps:
  "hookedOnceOrNot v0 (views q k) k \<Longrightarrow>
   hookedOnceOrNot v0 (views (ensureLeavesHooked (q\<lparr>leaves := ls\<rparr>)) k) k"
  by (simp add: ensureLeavesHooked_def fold_ensureLeafHooked_keeps)

lemma attachmentPasses_keeps:
  "hookedOnceOrNot v0 (views q k) k \<Longrightarrow>
   hookedOnceOrNot v0 (views (attachmentPasses lss q) k) k"
  unfolding attachmentPasses_def
  by (induction lss arbitrary: q) (simp_all add: ensureLeavesHooked_keeps)

text \<open>A pass leaves every leaf it visits hooked.\<close>

lemma fold_ensureLeafHooked_hooks:
  "k \<in> set ls \<or> isHooked (views q k) \<Longrightarrow> isHooked (views (fold ensureLeafHooked ls q) k)"
proof (induction ls arbitrary: q)
  case Nil
  then show ?case by simp
next
  case (Cons e ls)
  have "k \<in> set ls \<or> isHooked (views (ensureLeafHooked e q) k)"
    using Cons.prems by (auto simp: ensureLeafHooked_def isHooked_hook)
  then show ?case by (simp add: Cons.IH)
qed

text \<open>
  Claim C9. Whatever attachment passes run, over whatever leaves are open at each pass,
  every view is wrapped at most once more than it was at the start; a view that already
  carries the hook marker (an own \<open>setState\<close> holding a function) is left exactly as it
  is by every pass; and one pass gives every leaf it visits the marker.
\<close>

theorem view_hooked_at_most_once:
  "viewTimesHooked (views (attachmentPasses lss p) k) \<le> Suc (viewTimesHooked (views p k))
   \<and> (isHooked (views p k) \<longrightarrow> views (attachmentPasses lss p) k = views p k)
   \<and> (k \<in> set (leaves p) \<longrightarrow> isHooked (views (ensureLeavesHooked p) k))"
proof -
  have "hookedOnceOrNot (views p k) (views (attachmentPasses lss p) k) k"
    by (rule attachmentPasses_keeps) (simp add: hookedOnceOrNot_def)
  then have
    "viewTimesHooked (views (attachmentPasses lss p) k) \<le> Suc (viewTimesHooked (views p k))"
    and "isHooked (views p k) \<longrightarrow> views (attachmentPasses lss p) k = views p k"
    by (auto simp: hookedOnceOrNot_def viewTimesHooked_hook)
  moreover have "k \<in> set (leaves p) \<longrightarrow> isHooked (views (ensureLeavesHooked p) k)"
    by (simp add: ensureLeavesHooked_def fold_ensureLeafHooked_hooks)
  ultimately show ?thesis by simp
qed

text \<open>Three passes over a workspace that lists view 0 twice wrap it once; after the
  first pass the later ones leave it as it is.\<close>

theorem view_hooked_at_most_once_witness:
  "viewTimesHooked (views (attachmentPasses [[0, 1, 0], [1, 0], [0, 2]] hookedPlugin) 0) = 1
   \<and> isHooked (views (ensureLeavesHooked hookedPlugin) 0)
   \<and> views (attachmentPasses [[1, 0], [0, 2]] (ensureLeavesHooked hookedPlugin)) 0
      = views (ensureLeavesHooked hookedPlugin) 0"
  using view_hooked_at_most_once [of "[[0, 1, 0], [1, 0], [0, 2]]" hookedPlugin 0]
    view_hooked_at_most_once [of "[[1, 0], [0, 2]]" "ensureLeavesHooked hookedPlugin" 0]
  by (simp add: attachmentPasses_def ensureLeavesHooked_def ensureLeafHooked_def
      hookedPlugin_def pluginWith_def graphView_def isHooked_def hookViewStateChanged_def
      viewTimesHooked_def Let_def)

section \<open>Properties of the wrapper\<close>

text \<open>A callback registered last on a promise runs last when the promise is fulfilled.\<close>

lemma fulfil_registered_last:
  "world (fulfil k (rt\<lparr>thens := thens rt @ [(k, cb)]\<rparr>)) = cb (world (fulfil k rt))"
  by (simp add: fulfil_def)

text \<open>
  When the original returns a result other than \<open>undefined\<close> and \<open>null\<close>: the
  before-hook runs first, the original is invoked on the resulting state with the
  arguments unchanged and the view as receiver, and its result is returned. If the result
  has a \<open>then\<close> method the after-hook is registered on it, the world is as the
  original left it, and the after-hook runs when the promise is fulfilled; otherwise the
  after-hook runs at once.
\<close>

lemma wrapper_forwards_and_runs_after_hook:
  assumes "original view arguments (rt\<lparr>world := onBefore view (world rt)\<rparr>) = Inr (r, rt2)"
    and "r \<noteq> Undefined" and "r \<noteq> Null"
  shows "boundWrapper onBefore (Some original) onAfter view receiver arguments rt =
           Inr (r, case r of
                     Thenable k \<Rightarrow> rt2\<lparr>thens := thens rt2 @ [(k, onAfter view)]\<rparr>
                   | Plain v \<Rightarrow> rt2\<lparr>world := onAfter view (world rt2)\<rparr>
                   | Undefined \<Rightarrow> rt2
                   | Null \<Rightarrow> rt2)
         \<and> (\<forall>k. r = Thenable k \<longrightarrow>
               world (rt2\<lparr>thens := thens rt2 @ [(k, onAfter view)]\<rparr>) = world rt2
               \<and> world (fulfil k (rt2\<lparr>thens := thens rt2 @ [(k, onAfter view)]\<rparr>))
                   = onAfter view (world (fulfil k rt2)))"
  using assms
  by (cases r) (simp_all add: boundWrapper_def wrapper_def Let_def fulfil_registered_last)

text \<open>A synchronous result 5 and a promise 7, with receiver 9 passed by the caller of
  the wrapper of view 0.\<close>

lemma wrapper_on_plain_result_and_promise:
  "boundWrapper logBefore (Some (originalReturning (Plain 5))) logAfter 0 9 [1, 2] emptyRuntime
     = Inr (Plain 5, \<lparr>world = [''before'', ''original'', ''after''], thens = []\<rparr>)
   \<and> boundWrapper logBefore (Some (originalReturning (Thenable 7))) logAfter 0 9 [1, 2]
       emptyRuntime
     = Inr (Thenable 7, \<lparr>world = [''before'', ''original''], thens = [(7, logAfter 0)]\<rparr>)
   \<and> world (fulfil 7 \<lparr>world = [''before'', ''original''], thens = [(7, logAfter 0)]\<rparr>)
     = [''before'', ''original'', ''after'']"
  using
    wrapper_forwards_and_runs_after_hook
      [where original = "originalReturning (Plain 5)" and view = 0 and arguments = "[1, 2]"
        and rt = emptyRuntime and onBefore = logBefore and r = "Plain 5"
        and ?rt2.0 = "\<lparr>world = [''before'', ''original''], thens = []\<rparr>"
        and onAfter = logAfter and receiver = 9]
    wrapper_forwards_and_runs_after_hook
      [where original = "originalReturning (Thenable 7)" and view = 0 and arguments = "[1, 2]"
        and rt = emptyRuntime and onBefore = logBefore and r = "Thenable 7"
        and ?rt2.0 = "\<lparr>world = [''before'', ''original''], thens = []\<rparr>"
        and onAfter = logAfter and receiver = 9]
  by (simp add: originalReturning_def emptyRuntime_def logBefore_def logAfter_def fulfil_def)

text \<open>
  Claim C8 (failing input). When the original transition returns \<open>undefined\<close> or
  \<open>null\<close>, as a synchronous transition without a return value does, the wrapper
  raises a \<open>TypeError\<close> on reading \<open>r.then\<close> (line 503), after the before-hook and
  the original have run: the result is not returned to the caller and the after-hook does
  not run, neither at once nor later.
\<close>

theorem wrapper_raises_on_nullish_result:
  assumes "original view arguments (rt\<lparr>world := onBefore view (world rt)\<rparr>) = Inr (r, rt2)"
    and "r = Undefined \<or> r = Null"
  shows "boundWrapper onBefore (Some original) onAfter view receiver arguments rt
           = Inl TypeError"
  using assms by (auto simp add: boundWrapper_def wrapper_def Let_def)

text \<open>An original that returns \<open>undefined\<close>, invoked through the wrapper of view 0.\<close>

theorem wrapper_raises_on_nullish_result_witness:
  "boundWrapper logBefore (Some (originalReturning Undefined)) logAfter 0 0 [1, 2] emptyRuntime
     = Inl TypeError"
  using wrapper_raises_on_nullish_result
    [where original = "originalReturning Undefined" and view = 0 and arguments = "[1, 2]"
      and rt = emptyRuntime and onBefore = logBefore and r = Undefined
      and ?rt2.0 = "\<lparr>world = [''before'', ''original''], thens = []\<rparr>"
      and onAfter = logAfter and receiver = 0]
  by (simp add: originalReturning_def emptyRuntime_def logBefore_def)

section \<open>Properties of the style applier\<close>

lemmas css_defs = CssBlurAll_def CssRevealOnHover_def CssRevealAll_def CssRevealUnderCaret_def
  CssRevealHeadlines_def CssReveal_def CssIsMdView_def CssIsNonMdView_def
  CssIsMdViewHeadlinesOnly_def CssPrivacyGlassesReveal_def

text \<open>The reveal decision, the class of the view kind and the final class sets read
  only what \<open>sameInputs\<close> keeps.\<close>

lemma sameInputs_refl: "sameInputs p p"
  by (simp add: sameInputs_def)

lemma sameInputs_trans: "sameInputs p q \<Longrightarrow> sameInputs q r \<Longrightarrow> sameInputs p r"
  by (simp add: sameInputs_def)

lemma shouldRevealLeaf_sameInputs:
  assumes "sameInputs p q"
  shows "shouldRevealLeaf q v = shouldRevealLeaf p v"
proof -
  from assms have eqs: "settings q = settings p" "currentLevel q = currentLevel p"
    "getFileCache q = getFileCache p"
    by (simp_all add: sameInputs_def)
  show ?thesis
    unfolding shouldRevealLeaf_def gatherTags_def directoryPolicy_def eqs ..
qed

lemma viewKindClass_sameInputs: "sameInputs p q \<Longrightarrow> viewKindClass q v = viewKindClass p v"
  by (simp add: sameInputs_def viewKindClass_def)

lemma targetClasses_sameInputs: "sameInputs p q \<Longrightarrow> targetClasses q v = targetClasses p v"
  by (simp add: targetClasses_def shouldRevealLeaf_sameInputs viewKindClass_sameInputs)

lemma finalClasses_sameInputs: "sameInputs p q \<Longrightarrow> finalClasses q ls e S = finalClasses p ls e S"
proof (induction ls arbitrary: S)
  case Nil
  then show ?case by simp
next
  case (Cons l ls)
  then show ?case
    by (simp add: targetClasses_sameInputs) (simp add: sameInputs_def)
qed

text \<open>What the per-view update adds is among the classes it manages.\<close>

lemma viewKindClass_managed: "viewKindClass p v \<in> managedClasses"
  by (simp add: viewKindClass_def managedClasses_def Let_def)

lemma viewKindClass_not_reveal: "viewKindClass p v \<noteq> CssPrivacyGlassesReveal"
  by (simp add: viewKindClass_def Let_def css_defs)

lemma targetClasses_managed: "targetClasses p v \<subseteq> managedClasses"
  using viewKindClass_managed [of p v] by (auto simp: targetClasses_def managedClasses_def)

text \<open>Class list operations.\<close>

lemma sameInputs_addClass: "sameInputs p (addClass el c p)"
  by (simp add: sameInputs_def addClass_def)

lemma sameInputs_removeClass: "sameInputs p (removeClass el c p)"
  by (simp add: sameInputs_def removeClass_def)

lemma set_classList_add: "set (classList_add c cs) = insert c (set cs)"
  by (auto simp: classList_add_def)

lemma distinct_classList_add: "distinct cs \<Longrightarrow> distinct (classList_add c cs)"
  by (simp add: classList_add_def)

lemma distinct_classList_remove: "distinct xs \<Longrightarrow> distinct (classList_remove cs xs)"
  by (simp add: classList_remove_def)

text \<open>One step of the per-view style update, with the decision and the class of the
  view kind read from the plugin before the step.\<close>

lemma updateLeafViewStyle_unfold:
  "updateLeafViewStyle v p =
     (case shouldRevealLeaf p v of
        Inl e \<Rightarrow> Inl e
      | Inr b \<Rightarrow>
          (let el = containerEl v;
               p2 = addClass el (viewKindClass p v)
                      (removeClass el [CssIsMdView, CssIsNonMdView, CssIsMdViewHeadlinesOnly] p)
           in if b then Inr ((addClass el CssPrivacyGlassesReveal p2)\<lparr>revealed := revealed p2 @ [el]\<rparr>)
              else Inr (removeClass el [CssPrivacyGlassesReveal] p2)))"
proof -
  let ?p1 = "removeClass (containerEl v) [CssIsMdView, CssIsNonMdView, CssIsMdViewHeadlinesOnly] p"
  let ?p2 = "addClass (containerEl v) (viewKindClass p v) ?p1"
  have 1: "viewKindClass ?p1 v = viewKindClass p v"
    by (rule viewKindClass_sameInputs [OF sameInputs_removeClass])
  have "sameInputs p ?p2"
    by (rule sameInputs_trans [OF sameInputs_removeClass sameInputs_addClass])
  then have 2: "shouldRevealLeaf ?p2 v = shouldRevealLeaf p v"
    by (rule shouldRevealLeaf_sameInputs)
  show ?thesis
    unfolding updateLeafViewStyle_def Let_def 1 2
    by (simp split: sum.splits)
qed

text \<open>A step that completes: the decision did not raise, only the class list of the
  container changed, and its class set is the old one without the managed classes plus
  the target classes of the view.\<close>

lemma updateLeafViewStyle_Inr:
  assumes "updateLeafViewStyle v p = Inr q"
  shows "(\<exists>b. shouldRevealLeaf p v = Inr b)"
    and "sameInputs p q" and "body q = body p"
    and "set (classList q e) =
           (if containerEl v = e then (set (classList p e) - managedClasses) \<union> targetClasses p v
            else set (classList p e))"
    and "distinct (classList p e) \<Longrightarrow> distinct (classList q e)"
proof -
  from assms obtain b where b: "shouldRevealLeaf p v = Inr b"
    by (cases "shouldRevealLeaf p v") (simp_all add: updateLeafViewStyle_unfold)
  then show "\<exists>b. shouldRevealLeaf p v = Inr b" by blast
  from assms b have q: "q = (let el = containerEl v;
               p2 = addClass el (viewKindClass p v)
                      (removeClass el [CssIsMdView, CssIsNonMdView, CssIsMdViewHeadlinesOnly] p)
           in if b then (addClass el CssPrivacyGlassesReveal p2)\<lparr>revealed := revealed p2 @ [el]\<rparr>
              else removeClass el [CssPrivacyGlassesReveal] p2)"
    by (simp add: updateLeafViewStyle_unfold Let_def split: if_splits)
  show "sameInputs p q" "body q = body p"
    by (simp_all add: q Let_def sameInputs_def addClass_def removeClass_def)
  show "set (classList q e) =
           (if containerEl v = e then (set (classList p e) - managedClasses) \<union> targetClasses p v
            else set (classList p e))"
    using viewKindClass_not_reveal [of p v] viewKindClass_managed [of p v]
    by (auto simp add: q Let_def addClass_def removeClass_def set_classList_add
        set_classList_remove targetClasses_def managedClasses_def b)
  show "distinct (classList p e) \<Longrightarrow> distinct (classList q e)"
    by (auto simp add: q Let_def addClass_def removeClass_def distinct_classList_add
        distinct_classList_remove)
qed

lemma updateLeafViewStyle_succeeds:
  "shouldRevealLeaf p v = Inr b \<Longrightarrow> \<exists>q. updateLeafViewStyle v p = Inr q"
  by (simp add: updateLeafViewStyle_unfold Let_def)

text \<open>The same for the update of all leaves, and its converse: the update completes when
  no decision raises.\<close>

lemma iterate_leaf_styles_Inr:
  "iterateAllLeaves (\<lambda>leaf q. updateLeafViewStyle (views q leaf) q) ls p = Inr q \<Longrightarrow>
   sameInputs p q \<and> body q = body p
   \<and> set (classList q e) = finalClasses p ls e (set (classList p e))
   \<and> (distinct (classList p e) \<longrightarrow> distinct (classList q e))
   \<and> (\<forall>l \<in> set ls. \<exists>b. shouldRevealLeaf p (views p l) = Inr b)"
proof (induction ls arbitrary: p)
  case Nil
  then show ?case by (simp add: sameInputs_refl)
next
  case (Cons l ls)
  from Cons.prems obtain p' where
    step: "updateLeafViewStyle (views p l) p = Inr p'" and
    rest: "iterateAllLeaves (\<lambda>leaf q. updateLeafViewStyle (views q leaf) q) ls p' = Inr q"
    by (cases "updateLeafViewStyle (views p l) p") simp_all
  note s = updateLeafViewStyle_Inr [OF step]
  note r = Cons.IH [OF rest]
  note r1 = r [THEN conjunct1]
  note r2 = r [THEN conjunct2, THEN conjunct1]
  note r3 = r [THEN conjunct2, THEN conjunct2, THEN conjunct1]
  note r4 = r [THEN conjunct2, THEN conjunct2, THEN conjunct2, THEN conjunct1]
  note r5 = r [THEN conjunct2, THEN conjunct2, THEN conjunct2, THEN conjunct2]
  have same: "sameInputs p p'" by (rule s(2))
  have vs: "views p' = views p" using same by (simp add: sameInputs_def)
  have f1: "sameInputs p q"
    by (rule sameInputs_trans [OF same r1])
  have f2: "body q = body p"
    using r2 s(3) by simp
  have f3: "set (classList q e) = finalClasses p (l # ls) e (set (classList p e))"
    unfolding r3 s(4) [of e] finalClasses_sameInputs [OF same] by simp
  have f4: "distinct (classList p e) \<longrightarrow> distinct (classList q e)"
    using r4 s(5) [of e] by simp
  have f5: "\<forall>k \<in> set (l # ls). \<exists>b. shouldRevealLeaf p (views p k) = Inr b"
    using r5 s(1) unfolding shouldRevealLeaf_sameInputs [OF same] vs by simp
  show ?case
    by (intro conjI f1 f2 f3 f4 f5)
qed

lemma iterate_leaf_styles_succeeds:
  "\<forall>l \<in> set ls. \<exists>b. shouldRevealLeaf p (views p l) = Inr b \<Longrightarrow>
   \<exists>q. iterateAllLeaves (\<lambda>leaf q. updateLeafViewStyle (views q leaf) q) ls p = Inr q"
proof (induction ls arbitrary: p)
  case Nil
  then show ?case by simp
next
  case (Cons l ls)
  then obtain b where "shouldRevealLeaf p (views p l) = Inr b" by auto
  then obtain p' where step: "updateLeafViewStyle (views p l) p = Inr p'"
    using updateLeafViewStyle_succeeds by blast
  have same: "sameInputs p p'" by (rule updateLeafViewStyle_Inr(2) [OF step])
  then have vs: "views p' = views p" by (simp add: sameInputs_def)
  have "\<forall>k \<in> set ls. \<exists>b. shouldRevealLeaf p' (views p' k) = Inr b"
    using Cons.prems by (simp add: shouldRevealLeaf_sameInputs [OF same] vs)
  from Cons.IH [OF this] show ?case
    by (simp add: step)
qed

text \<open>Over a list of leaves, an element keeps its class set or has it reset to the
  target classes of the last leaf that uses it as container; either way a second pass
  changes nothing.\<close>

lemma finalClasses_shape:
  "(\<forall>S. finalClasses p ls e S = S) \<or>
   (\<exists>T. T \<subseteq> managedClasses \<and> (\<forall>S. finalClasses p ls e S = (S - managedClasses) \<union> T))"
proof (induction ls)
  case Nil
  then show ?case by simp
next
  case (Cons l ls)
  show ?case
  proof (cases "containerEl (views p l) = e")
    case False
    with Cons.IH show ?thesis by simp
  next
    case True
    from Cons.IH show ?thesis
    proof
      assume "\<forall>S. finalClasses p ls e S = S"
      with True have "\<forall>S. finalClasses p (l # ls) e S
                        = (S - managedClasses) \<union> targetClasses p (views p l)"
        by simp
      then have "targetClasses p (views p l) \<subseteq> managedClasses \<and>
          (\<forall>S. finalClasses p (l # ls) e S
                = (S - managedClasses) \<union> targetClasses p (views p l))"
        using targetClasses_managed [of p "views p l"] by simp
      then show ?thesis
        by (intro disjI2 exI [of _ "targetClasses p (views p l)"])
    next
      assume "\<exists>T. T \<subseteq> managedClasses \<and> (\<forall>S. finalClasses p ls e S = (S - managedClasses) \<union> T)"
      then obtain T where T: "T \<subseteq> managedClasses"
        "\<forall>S. finalClasses p ls e S = (S - managedClasses) \<union> T" by blast
      have "finalClasses p (l # ls) e S = (S - managedClasses) \<union> T" for S
      proof -
        have "finalClasses p (l # ls) e S
              = (((S - managedClasses) \<union> targetClasses p (views p l)) - managedClasses) \<union> T"
          using True T(2) by simp
        also have "\<dots> = (S - managedClasses) \<union> T"
          using targetClasses_managed [of p "views p l"] by blast
        finally show ?thesis .
      qed
      then have "\<forall>S. finalClasses p (l # ls) e S = (S - managedClasses) \<union> T"
        by blast
      with T(1) have "T \<subseteq> managedClasses \<and>
          (\<forall>S. finalClasses p (l # ls) e S = (S - managedClasses) \<union> T)"
        by simp
      then show ?thesis
        by (intro disjI2 exI [of _ T])
    qed
  qed
qed

lemma finalClasses_idem:
  "finalClasses p ls e (finalClasses p ls e S) = finalClasses p ls e S"
proof -
  from finalClasses_shape [of p ls e] show ?thesis
  proof
    assume "\<forall>S. finalClasses p ls e S = S"
    then show ?thesis by simp
  next
    assume "\<exists>T. T \<subseteq> managedClasses
              \<and> (\<forall>S. finalClasses p ls e S = (S - managedClasses) \<union> T)"
    then obtain T where T: "T \<subseteq> managedClasses"
      and eq: "\<And>S. finalClasses p ls e S = (S - managedClasses) \<union> T" by blast
    have "finalClasses p ls e (finalClasses p ls e S)
          = (((S - managedClasses) \<union> T) - managedClasses) \<union> T"
      by (simp only: eq)
    also have "\<dots> = (S - managedClasses) \<union> T"
      using T by blast
    also have "\<dots> = finalClasses p ls e S"
      by (simp only: eq)
    finally show ?thesis .
  qed
qed


text \<open>The body update: the five body classes are pairwise different names, and the
  update depends on the level, the two flags and the body class list only.\<close>

lemma body_classes_differ:
  "CssBlurAll \<noteq> CssRevealOnHover \<and> CssBlurAll \<noteq> CssRevealAll \<and>
   CssBlurAll \<noteq> CssRevealUnderCaret \<and>
   CssBlurAll \<noteq> CssRevealHeadlines \<and>
   CssRevealOnHover \<noteq> CssBlurAll \<and>
   CssRevealOnHover \<noteq> CssRevealAll \<and>
   CssRevealOnHover \<noteq> CssRevealUnderCaret \<and>
   CssRevealOnHover \<noteq> CssRevealHeadlines \<and>
   CssRevealAll \<noteq> CssBlurAll \<and> CssRevealAll \<noteq> CssRevealOnHover \<and>
   CssRevealAll \<noteq> CssRevealUnderCaret \<and>
   CssRevealAll \<noteq> CssRevealHeadlines \<and>
   CssRevealUnderCaret \<noteq> CssBlurAll \<and>
   CssRevealUnderCaret \<noteq> CssRevealOnHover \<and>
   CssRevealUnderCaret \<noteq> CssRevealAll \<and>
   CssRevealUnderCaret \<noteq> CssRevealHeadlines \<and>
   CssRevealHeadlines \<noteq> CssBlurAll \<and>
   CssRevealHeadlines \<noteq> CssRevealOnHover \<and>
   CssRevealHeadlines \<noteq> CssRevealAll \<and>
   CssRevealHeadlines \<noteq> CssRevealUnderCaret"
  by (simp add: css_defs)

lemma updateGlobalRevealStyle_fields:
  "sameInputs x (updateGlobalRevealStyle x)"
  "classList (updateGlobalRevealStyle x) = classList x"
  by (cases "currentLevel x";
      simp add: updateGlobalRevealStyle_def removeAllClasses_def Let_def sameInputs_def)+

lemma updateGlobalRevealStyle_body_idem:
  assumes "settings y = settings x" and "currentLevel y = currentLevel x"
    and "body y = body (updateGlobalRevealStyle x)"
  shows "body (updateGlobalRevealStyle y) = body y"
  using assms
  by (cases "currentLevel x"; cases "hoverToReveal (settings x)";
      cases "revealUnderCaret (settings x)")
    (simp_all add: updateGlobalRevealStyle_def removeAllClasses_def Let_def
      classList_add_def classList_remove_def body_classes_differ)

lemma updateGlobalRevealStyle_level_class:
  "set (body (updateGlobalRevealStyle x)) \<inter> {CssBlurAll, CssRevealAll, CssRevealHeadlines}
     = levelClasses (currentLevel x)"
  by (cases "currentLevel x"; cases "hoverToReveal (settings x)";
      cases "revealUnderCaret (settings x)")
    (auto simp add: updateGlobalRevealStyle_def removeAllClasses_def Let_def levelClasses_def
      classList_add_def classList_remove_def body_classes_differ)

lemma updateGlobalRevealStyle_distinct:
  "distinct (body x) \<Longrightarrow> distinct (body (updateGlobalRevealStyle x))"
  by (cases "currentLevel x"; cases "hoverToReveal (settings x)";
      cases "revealUnderCaret (settings x)")
    (simp_all add: updateGlobalRevealStyle_def removeAllClasses_def Let_def
      classList_add_def classList_remove_def body_classes_differ)

lemma updateLeavesAndGlobalReveals_Inr:
  assumes "updateLeavesAndGlobalReveals p = Inr q"
  obtains q1 where "updateLeavesStyle p = Inr q1" and "q = updateGlobalRevealStyle q1"
  using assms
  by (cases "updateLeavesStyle p") (simp_all add: updateLeavesAndGlobalReveals_def)


text \<open>One run on the workspace with the graph view only.\<close>

lemma first_run:
  "updateLeavesAndGlobalReveals (pluginWith scenarioSettings None graphView) = Inr styledOnce"
proof -
  have "updateGlobalRevealStyle revealedPlugin = styledOnce"
    by (simp add: updateGlobalRevealStyle_def removeAllClasses_def styledOnce_def
        revealedPlugin_def pluginWith_def scenarioSettings_def classList_add_def
        classList_remove_def Let_def)
  then show ?thesis
    by (simp add: updateLeavesAndGlobalReveals_def revealedPlugin_from_update)
qed

text \<open>
  Claim C10. When a run of the style applier (the per-view update of every leaf followed
  by the body update) completes, a second run on the resulting state, with level,
  settings, views and metadata unchanged, completes too and yields the same class list
  on the document body and the same class set on every element; class lists that had no
  duplicates have none afterwards; and of the three level classes the body carries
  exactly the one of the level, and none under \<open>HidePrivate\<close>.
\<close>

theorem style_applier_idempotent:
  assumes "updateLeavesAndGlobalReveals p = Inr q"
  shows "(\<exists>r. updateLeavesAndGlobalReveals q = Inr r \<and> body r = body q
              \<and> (\<forall>e. set (classList r e) = set (classList q e)))
       \<and> (distinct (body p) \<longrightarrow> distinct (body q))
       \<and> (\<forall>e. distinct (classList p e) \<longrightarrow> distinct (classList q e))
       \<and> set (body q) \<inter> {CssBlurAll, CssRevealAll, CssRevealHeadlines}
           = levelClasses (currentLevel p)"
proof -
  from assms obtain q1 where q1: "updateLeavesStyle p = Inr q1"
    and q: "q = updateGlobalRevealStyle q1"
    by (rule updateLeavesAndGlobalReveals_Inr)
  note i1 = iterate_leaf_styles_Inr [OF q1 [unfolded updateLeavesStyle_def]]
  have pq1: "sameInputs p q1" using i1 by simp
  have q1q: "sameInputs q1 q" unfolding q by (rule updateGlobalRevealStyle_fields)
  have pq: "sameInputs p q" by (rule sameInputs_trans [OF pq1 q1q])
  have lv: "leaves q = leaves p" "views q = views p" using pq by (simp_all add: sameInputs_def)
  have cq: "classList q = classList q1" unfolding q by (rule updateGlobalRevealStyle_fields)
  have dec: "\<forall>l \<in> set (leaves q). \<exists>b. shouldRevealLeaf q (views q l) = Inr b"
    using i1 [of 0] unfolding shouldRevealLeaf_sameInputs [OF pq] lv by simp
  from iterate_leaf_styles_succeeds [OF dec] obtain r1 where
    r1: "updateLeavesStyle q = Inr r1"
    unfolding updateLeavesStyle_def by blast
  note i2 = iterate_leaf_styles_Inr [OF r1 [unfolded updateLeavesStyle_def]]
  have qr1: "sameInputs q r1" using i2 by simp
  have q1r1: "sameInputs q1 r1" by (rule sameInputs_trans [OF q1q qr1])
  let ?r = "updateGlobalRevealStyle r1"
  have run: "updateLeavesAndGlobalReveals q = Inr ?r"
    by (simp add: updateLeavesAndGlobalReveals_def r1)
  have "body r1 = body (updateGlobalRevealStyle q1)"
    using i2 q by simp
  then have "body ?r = body r1"
    using q1r1 by (intro updateGlobalRevealStyle_body_idem [where x = q1])
      (simp_all add: sameInputs_def)
  then have b: "body ?r = body q" using i2 by simp
  have c: "set (classList ?r e) = set (classList q e)" for e
  proof -
    have "set (classList ?r e) = set (classList r1 e)"
      by (simp add: updateGlobalRevealStyle_fields)
    also have "\<dots> = finalClasses q (leaves q) e (set (classList q e))"
      using i2 [of e] by simp
    also have "\<dots> = finalClasses p (leaves p) e (set (classList q1 e))"
      by (simp add: finalClasses_sameInputs [OF pq] lv cq)
    also have "\<dots> = finalClasses p (leaves p) e
                          (finalClasses p (leaves p) e (set (classList p e)))"
      using i1 [of e] by simp
    also have "\<dots> = set (classList q1 e)"
      using i1 [of e] by (simp add: finalClasses_idem)
    finally show ?thesis by (simp add: cq)
  qed
  have d1: "distinct (body p) \<longrightarrow> distinct (body q)"
    using i1 [of 0] unfolding q by (auto intro: updateGlobalRevealStyle_distinct)
  have d2: "distinct (classList p e) \<longrightarrow> distinct (classList q e)" for e
    using i1 [of e] by (simp add: cq)
  have l: "set (body q) \<inter> {CssBlurAll, CssRevealAll, CssRevealHeadlines}
           = levelClasses (currentLevel p)"
    unfolding q updateGlobalRevealStyle_level_class using pq1 by (simp add: sameInputs_def)
  from run b c have e: "\<exists>r. updateLeavesAndGlobalReveals q = Inr r \<and> body r = body q
              \<and> (\<forall>e. set (classList r e) = set (classList q e))"
    by (intro exI [of _ ?r]) simp
  show ?thesis
    using e d1 d2 l by (intro conjI allI) 
qed

text \<open>The workspace with the graph view only: one run gives \<open>styledOnce\<close>, and a
  second run changes no class set.\<close>

theorem style_applier_idempotent_witness:
  "updateLeavesAndGlobalReveals (pluginWith scenarioSettings None graphView) = Inr styledOnce
   \<and> (\<exists>r. updateLeavesAndGlobalReveals styledOnce = Inr r \<and> body r = body styledOnce
          \<and> set (classList r 3) = set (classList styledOnce 3))
   \<and> distinct (classList styledOnce 3)
   \<and> set (body styledOnce) \<inter> {CssBlurAll, CssRevealAll, CssRevealHeadlines} = {}"
proof -
  note t = style_applier_idempotent [OF first_run]
  from t obtain r where r: "updateLeavesAndGlobalReveals styledOnce = Inr r"
    "body r = body styledOnce" "\<forall>e. set (classList r e) = set (classList styledOnce e)"
    by blast
  have d: "distinct (classList styledOnce 3)"
    using t by (simp add: pluginWith_def)
  have l: "set (body styledOnce) \<inter> {CssBlurAll, CssRevealAll, CssRevealHeadlines} = {}"
    using t by (simp add: pluginWith_def levelClasses_def)
  from r have "\<exists>r. updateLeavesAndGlobalReveals styledOnce = Inr r \<and> body r = body styledOnce
          \<and> set (classList r 3) = set (classList styledOnce 3)"
    by blast
  with first_run d l show ?thesis by (intro conjI)
qed

section \<open>Properties of the idle monitor\<close>






text \<open>The tick decides on the rounded values: when the difference of the time stamps
  rounds to 5000, the tick with threshold 5 hides all, also when the exact difference is
  below 5000.\<close>

lemma tick_decides_on_rounded_difference:
  assumes "rnd (now - t) = 5000" and "rnd 5 = 5"
    and "blurOnIdleTimeoutSeconds (settings p) = 5" and "currentLevel p \<noteq> HideAll"
    and "lastEventTime p = Some t" and "t \<noteq> 0"
  shows "checkIdleTimeout rnd now p
           = updateLeavesAndGlobalReveals (p\<lparr>currentLevel := HideAll\<rparr>)"
  using assms by (simp add: checkIdleTimeout_def js_divide_def js_minus_def)





end
